theory Spec2Isabelle
  imports Complex_Main
begin

section \<open>The focus-safety utility of @react-aria/focus (focusSafely.ts)\<close>

subsection \<open>The DOM as the routine sees it\<close>

text \<open>
  Elements are opaque handles. The routine only asks the DOM two questions:
  \<^verbatim>\<open>a.contains(b)\<close> (is \<open>b\<close> an inclusive descendant of \<open>a\<close>) and
  \<^verbatim>\<open>document.contains(b)\<close>. The DOM is a forest of rose trees: the document
  tree and the subtrees that are detached from it.
\<close>

type_synonym elem = nat

datatype node = Node elem "node list"

fun node_id :: "node \<Rightarrow> elem" where
  "node_id (Node e cs) = e"

fun node_ids :: "node \<Rightarrow> elem list" where
  "node_ids (Node e cs) = e # concat (map node_ids cs)"

fun subtrees :: "node \<Rightarrow> node list" where
  "subtrees (Node e cs) = Node e cs # concat (map subtrees cs)"

datatype js_error = TypeError | ReferenceError

datatype modality = Pointer | Keyboard | Virtual | Other

datatype scroll_behavior = Auto | Smooth

datatype scroll_alignment = Start | Center | End | Nearest

record scroll_into_view_options =
  behavior :: scroll_behavior
  block :: scroll_alignment
  inline :: scroll_alignment

record intersection_observer_init =
  root :: "elem option"
  rootMargin :: string
  threshold :: rat

record intersection_observer =
  init :: intersection_observer_init
  targets :: "elem list"

record intersection_observer_entry =
  target :: elem
  isIntersecting :: bool

text \<open>
  The two closures the source hands to \<^verbatim>\<open>runAfterTransition\<close>, with the values
  they capture: the deferred focus move of the virtual branch (lines 63-71) captures
  \<^verbatim>\<open>lastFocusedElement\<close> and \<^verbatim>\<open>element\<close>; the scroll correction of the observer
  callback (line 35) captures \<^verbatim>\<open>entry.target\<close> and the scroll options.
\<close>

datatype callback =
  FocusCallback "elem option" elem
| ScrollCallback elem scroll_into_view_options

text \<open>The host primitives the routine invokes, in the order it invokes them.\<close>

datatype event =
  FocusWithoutScrolling elem
| Observe elem
| Unobserve elem
| ScrollIntoView elem scroll_into_view_options

record world =
  document :: node
  detached :: "node list"
  activeElement :: "elem option"
  currentModality :: modality
  observerInstance :: "intersection_observer option"
  transitionCallbacks :: "callback list"
  trace :: "event list"

definition node_contains :: "world \<Rightarrow> elem \<Rightarrow> elem option \<Rightarrow> bool" where
  \<comment> \<open>\<^verbatim>\<open>a.contains(b)\<close>; \<^verbatim>\<open>contains(null)\<close> is false.\<close>
  "node_contains w a b =
     (case b of
        None \<Rightarrow> False
      | Some b' \<Rightarrow>
          list_ex (\<lambda>n. node_id n = a \<and> b' \<in> set (node_ids n))
            (concat (map subtrees (document w # detached w))))"

definition document_contains :: "world \<Rightarrow> elem \<Rightarrow> bool" where
  \<comment> \<open>\<^verbatim>\<open>document.contains(b)\<close>\<close>
  "document_contains w b = (b \<in> set (node_ids (document w)))"

subsection \<open>Collaborators that are imported, not defined, by focusSafely.ts\<close>

definition getInteractionModality :: "world \<Rightarrow> modality" where
  \<comment> \<open>Modelled from the spec: the interaction-modality tracker of
      @react-aria/interactions is not in the source; it "exposes a query returning the
      current modality enum {pointer, keyboard, virtual, other}", read-only.\<close>
  "getInteractionModality w = currentModality w"

definition runAfterTransition :: "callback \<Rightarrow> world \<Rightarrow> world" where
  \<comment> \<open>Modelled from the spec: the transition-completion scheduler of @react-aria/utils is
      not in the source; it runs the callback "once, after any currently-active visual
      transitions complete", "on a future turn of the event loop, not synchronously
      within the same call". Scheduling appends the callback to the pending queue.\<close>
  "runAfterTransition cb w = w\<lparr>transitionCallbacks := transitionCallbacks w @ [cb]\<rparr>"

definition focusWithoutScrolling :: "elem \<Rightarrow> world \<Rightarrow> world" where
  \<comment> \<open>Modelled from the spec: the host focus primitive of @react-aria/utils is not in the
      source; it "moves focus to element X without triggering default scroll-into-view"
      and is "assumed always to succeed on an attached element". The spec does not say
      what it does on an element that is not in the document; as in the DOM, the focus
      then stays where it is.\<close>
  "focusWithoutScrolling element w =
     w\<lparr>activeElement := (if document_contains w element then Some element else activeElement w),
       trace := trace w @ [FocusWithoutScrolling element]\<rparr>"

definition scrollIntoView :: "elem \<Rightarrow> scroll_into_view_options \<Rightarrow> world \<Rightarrow> world" where
  \<comment> \<open>\<^verbatim>\<open>element.scrollIntoView(options)\<close>: a host call, recorded in the trace.\<close>
  "scrollIntoView element opts w = w\<lparr>trace := trace w @ [ScrollIntoView element opts]\<rparr>"

definition new_IntersectionObserver ::
  "bool \<Rightarrow> intersection_observer_init \<Rightarrow> js_error + intersection_observer" where
  \<comment> \<open>Modelled from the spec: the host visibility-observation primitive is "optional
      (may be unavailable in some hosts)"; where it is unavailable the constructor call
      throws. A fresh observer observes nothing.\<close>
  "new_IntersectionObserver available opts =
     (if \<not> available then Inl ReferenceError else Inr \<lparr>init = opts, targets = []\<rparr>)"

definition observe :: "elem \<Rightarrow> world \<Rightarrow> world" where
  \<comment> \<open>\<^verbatim>\<open>intersectionObserver.observe(element)\<close>: adds the element to the observer's
      targets unless it is one already.\<close>
  "observe element w =
     w\<lparr>observerInstance :=
         map_option (\<lambda>obs. obs\<lparr>targets := (if element \<in> set (targets obs) then targets obs
                                            else targets obs @ [element])\<rparr>)
           (observerInstance w),
       trace := trace w @ [Observe element]\<rparr>"

definition unobserve :: "elem \<Rightarrow> world \<Rightarrow> world" where
  \<comment> \<open>\<^verbatim>\<open>observer.unobserve(element)\<close>\<close>
  "unobserve element w =
     w\<lparr>observerInstance :=
         map_option (\<lambda>obs. obs\<lparr>targets := removeAll element (targets obs)\<rparr>) (observerInstance w),
       trace := trace w @ [Unobserve element]\<rparr>"

subsection \<open>The module-level observer (lines 18-46)\<close>

definition intersectionObserverOptions :: intersection_observer_init where
  "intersectionObserverOptions = \<lparr>root = None, rootMargin = ''0px'', threshold = 1\<rparr>"

definition scrollIntoViewOptions :: scroll_into_view_options where
  "scrollIntoViewOptions = \<lparr>behavior = Auto, block = Nearest, inline = Nearest\<rparr>"

definition forEach_body :: "intersection_observer_entry \<Rightarrow> world \<Rightarrow> world" where
  \<comment> \<open>lines 33-37\<close>
  "forEach_body entry w =
     unobserve (target entry)
       (if \<not> isIntersecting entry
        then runAfterTransition (ScrollCallback (target entry) scrollIntoViewOptions) w
        else w)"

definition intersectionObserverCallback :: "intersection_observer_entry list \<Rightarrow> world \<Rightarrow> world" where
  \<comment> \<open>lines 31-39\<close>
  "intersectionObserverCallback entries w = fold forEach_body entries w"

definition intersectionObserver :: "bool \<Rightarrow> intersection_observer option" where
  \<comment> \<open>lines 41-45: try / catch around the constructor; the parameter says whether the
      host provides the constructor.\<close>
  "intersectionObserver available =
     (case new_IntersectionObserver available intersectionObserverOptions of
        Inr obs \<Rightarrow> Some obs
      | Inl err \<Rightarrow> None)"

subsection \<open>focusSafely (lines 53-89)\<close>

text \<open>
  A JavaScript call either returns or throws, and what it did before throwing stays
  done: the result is the completion together with the world.
\<close>

definition focusSafely :: "elem \<Rightarrow> world \<Rightarrow> (js_error + unit) \<times> world" where
  "focusSafely element w =
     (let modality = getInteractionModality w;
          lastFocusedElement = activeElement w
      in if modality = Virtual then
           (Inr (), runAfterTransition (FocusCallback lastFocusedElement element) w)
         else
           (let w1 = focusWithoutScrolling element w
            in case observerInstance w1 of
                 None \<Rightarrow> (Inr (), w1)
               | Some obs \<Rightarrow>
                   if modality \<noteq> Pointer then (Inr (), observe element w1)
                   else
                     (case lastFocusedElement of
                        None \<Rightarrow> (Inl TypeError, w1)
                      | Some l \<Rightarrow>
                          if \<not> (node_contains w1 l (Some element)
                                \<or> node_contains w1 element lastFocusedElement
                                \<or> Some element = lastFocusedElement)
                          then (Inr (), observe element w1)
                          else (Inr (), w1))))"

definition run_callback :: "callback \<Rightarrow> world \<Rightarrow> world" where
  \<comment> \<open>The bodies of the two deferred closures: lines 64-70 and line 35.\<close>
  "run_callback cb w =
     (case cb of
        FocusCallback lastFocusedElement element \<Rightarrow>
          if activeElement w = lastFocusedElement \<and> document_contains w element then
            (let w1 = focusWithoutScrolling element w
             in case observerInstance w1 of
                  None \<Rightarrow> w1
                | Some obs \<Rightarrow> observe element w1)
          else w
      | ScrollCallback element opts \<Rightarrow> scrollIntoView element opts w)"

subsection \<open>focusSafely with its accesses recorded\<close>


datatype primitive = FocusPrimitive | ObservePrimitive | ScrollPrimitive







subsection \<open>The host's side: firing the deferred work\<close>

definition transitions_complete :: "world \<Rightarrow> world" where
  \<comment> \<open>Modelled from the spec: the transition-completion signal is not in the source; it
      is "a single-shot callback driven by transition-completion": every pending
      callback runs once, in the order it was scheduled, and leaves the queue.\<close>
  "transitions_complete w = fold run_callback (transitionCallbacks w) (w\<lparr>transitionCallbacks := []\<rparr>)"

definition host_entry :: "intersection_observer_init \<Rightarrow> elem \<Rightarrow> rat \<Rightarrow> intersection_observer_entry" where
  \<comment> \<open>Modelled from the spec: the host's intersection judgement is not in the source; an
      element is reported as intersecting when it intersects the root bounds "at full
      visibility", that is when the visible fraction of its area reaches the
      configured threshold.\<close>
  "host_entry opts element ratio = \<lparr>target = element, isIntersecting = (threshold opts \<le> ratio)\<rparr>"

definition notify :: "intersection_observer_entry list \<Rightarrow> world \<Rightarrow> world option" where
  \<comment> \<open>Modelled from the spec: the host reports only on elements the watcher is observing
      ("notify me when element X's intersection with the viewport changes"), by calling
      the callback the watcher was constructed with. \<open>None\<close>: the host cannot make
      this report.\<close>
  "notify entries w =
     (case observerInstance w of
        None \<Rightarrow> None
      | Some obs \<Rightarrow>
          if list_all (\<lambda>entry. target entry \<in> set (targets obs)) entries
          then Some (intersectionObserverCallback entries w)
          else None)"

text \<open>
  A run of the page: calls of the routine by its callers, the host's deferred work, and
  changes made by other code (the modality tracker, other focus moves, DOM edits).
\<close>

datatype action =
  CallFocusSafely elem
| TransitionsComplete
| Notify "intersection_observer_entry list"
| SetModality modality
| SetActiveElement "elem option"
| SetDom node "node list"

fun step :: "action \<Rightarrow> world \<Rightarrow> world" where
  "step (CallFocusSafely element) w = snd (focusSafely element w)"
| "step TransitionsComplete w = transitions_complete w"
| "step (Notify entries) w = (case notify entries w of None \<Rightarrow> w | Some w' \<Rightarrow> w')"
| "step (SetModality m) w = w\<lparr>currentModality := m\<rparr>"
| "step (SetActiveElement e) w = w\<lparr>activeElement := e\<rparr>"
| "step (SetDom d ds) w = w\<lparr>document := d, detached := ds\<rparr>"

definition run :: "action list \<Rightarrow> world \<Rightarrow> world" where
  "run acts w = fold step acts w"

subsection \<open>What is observable of a run\<close>

fun is_focus :: "event \<Rightarrow> bool" where
  "is_focus (FocusWithoutScrolling e) = True"
| "is_focus _ = False"

fun is_scroll :: "event \<Rightarrow> bool" where
  "is_scroll (ScrollIntoView e opts) = True"
| "is_scroll _ = False"

fun is_observe :: "event \<Rightarrow> bool" where
  "is_observe (Observe e) = True"
| "is_observe _ = False"

definition observed :: "world \<Rightarrow> elem list" where
  "observed w = (case observerInstance w of None \<Rightarrow> [] | Some obs \<Rightarrow> targets obs)"

definition new_events :: "world \<Rightarrow> world \<Rightarrow> event list" where
  \<comment> \<open>the events that a step from \<open>w\<close> to \<open>w'\<close> appended to the trace\<close>
  "new_events w w' = drop (length (trace w)) (trace w')"

definition new_callbacks :: "world \<Rightarrow> world \<Rightarrow> callback list" where
  "new_callbacks w w' = drop (length (transitionCallbacks w)) (transitionCallbacks w')"

fun is_scroll_callback :: "callback \<Rightarrow> bool" where
  "is_scroll_callback (ScrollCallback e opts) = True"
| "is_scroll_callback _ = False"

definition related :: "world \<Rightarrow> elem option \<Rightarrow> elem \<Rightarrow> bool" where
  \<comment> \<open>The spec's words: "the previously-focused element and target are in an
      ancestor/descendant/identity relationship with each other".\<close>
  "related w previouslyFocused element =
     (case previouslyFocused of
        None \<Rightarrow> False
      | Some l \<Rightarrow> node_contains w l (Some element) \<or> node_contains w element (Some l) \<or> element = l)"

subsection \<open>A concrete page\<close>

definition page :: node where
  \<comment> \<open>0: the document; 1: its body; 2: a listbox with the option 3; 4: a button.\<close>
  "page = Node 0 [Node 1 [Node 2 [Node 3 []], Node 4 []]]"

definition initial_world :: "modality \<Rightarrow> elem option \<Rightarrow> bool \<Rightarrow> world" where
  \<comment> \<open>The world right after the module is loaded on the page: the observer has just been
      constructed (or its construction has just failed), nothing is pending. Element 5
      is not attached to the document.\<close>
  "initial_world m active available =
     \<lparr>document = page, detached = [Node 5 []], activeElement = active, currentModality = m,
      observerInstance = intersectionObserver available, transitionCallbacks = [], trace = []\<rparr>"

section \<open>Basic facts\<close>

lemmas focusSafely_defs =
  focusSafely_def getInteractionModality_def focusWithoutScrolling_def observe_def
  runAfterTransition_def Let_def

lemmas initial_world_defs =
  initial_world_def page_def intersectionObserver_def new_IntersectionObserver_def
  intersectionObserverOptions_def

lemma focusSafely_immediate_trace:
  "currentModality w \<noteq> Virtual \<Longrightarrow>
   trace (snd (focusSafely element w)) =
     trace w @ FocusWithoutScrolling element #
       (if fst (focusSafely element w) = Inr () \<and> observerInstance w \<noteq> None
           \<and> \<not> (currentModality w = Pointer \<and> related w (activeElement w) element)
        then [Observe element] else [])"
  by (auto simp: focusSafely_defs related_def node_contains_def split: option.splits)

lemma focusSafely_immediate_callbacks:
  "currentModality w \<noteq> Virtual \<Longrightarrow>
   transitionCallbacks (snd (focusSafely element w)) = transitionCallbacks w"
  by (auto simp: focusSafely_defs split: option.splits)

lemma focusSafely_immediate_activeElement:
  "currentModality w \<noteq> Virtual \<Longrightarrow>
   activeElement (snd (focusSafely element w)) =
     (if document_contains w element then Some element else activeElement w)"
  by (auto simp: focusSafely_defs document_contains_def split: option.splits)

lemma focusSafely_virtual_world:
  "currentModality w = Virtual \<Longrightarrow>
   focusSafely element w =
     (Inr (), w\<lparr>transitionCallbacks := transitionCallbacks w @ [FocusCallback (activeElement w) element]\<rparr>)"
  by (simp add: focusSafely_defs)


lemma run_callback_focus_trace:
  "trace (run_callback (FocusCallback prev element) w) =
     trace w @
       (if activeElement w = prev \<and> document_contains w element
        then FocusWithoutScrolling element # (if observerInstance w = None then [] else [Observe element])
        else [])"
  by (auto simp: run_callback_def focusSafely_defs split: option.splits)

lemma run_callback_focus_activeElement:
  "activeElement (run_callback (FocusCallback prev element) w) =
     (if activeElement w = prev \<and> document_contains w element then Some element else activeElement w)"
  by (auto simp: run_callback_def focusSafely_defs split: option.splits)

lemma run_callback_focus_observed:
  "observed (run_callback (FocusCallback prev element) w) =
     (if activeElement w = prev \<and> document_contains w element \<and> observerInstance w \<noteq> None
         \<and> element \<notin> set (observed w)
      then observed w @ [element] else observed w)"
  by (auto simp: run_callback_def focusSafely_defs observed_def split: option.splits)

lemma run_callback_focus_stale:
  "\<not> (activeElement w = prev \<and> document_contains w element) \<Longrightarrow>
   run_callback (FocusCallback prev element) w = w"
  by (auto simp: run_callback_def)

lemma run_callback_scroll_trace:
  "trace (run_callback (ScrollCallback element opts) w) = trace w @ [ScrollIntoView element opts]"
  by (simp add: run_callback_def scrollIntoView_def)

lemma run_callback_callbacks:
  "transitionCallbacks (run_callback cb w) = transitionCallbacks w"
  by (auto simp: run_callback_def focusSafely_defs scrollIntoView_def split: callback.splits option.splits)

lemma focusSafely_throw_no_registration:
  "fst (focusSafely element w) = Inl err \<Longrightarrow>
   new_events w (snd (focusSafely element w)) = [FocusWithoutScrolling element]"
  by (auto simp: new_events_def focusSafely_defs split: option.splits if_splits)

lemma transitions_complete_fold_callbacks:
  "transitionCallbacks (fold run_callback cbs w) = transitionCallbacks w"
  by (induction cbs arbitrary: w) (simp_all add: run_callback_callbacks)

lemma transitions_complete_empties:
  "transitionCallbacks (transitions_complete w) = []"
  by (simp add: transitions_complete_def transitions_complete_fold_callbacks)

lemma forEach_body_callbacks:
  "transitionCallbacks (forEach_body entry w) =
     transitionCallbacks w @
       (if isIntersecting entry then [] else [ScrollCallback (target entry) scrollIntoViewOptions])"
  by (simp add: forEach_body_def unobserve_def runAfterTransition_def)

lemma forEach_body_trace:
  "trace (forEach_body entry w) = trace w @ [Unobserve (target entry)]"
  by (simp add: forEach_body_def unobserve_def runAfterTransition_def)

lemma fold_forEach_body_callbacks:
  "transitionCallbacks (fold forEach_body entries w) =
     transitionCallbacks w @
       map (\<lambda>entry. ScrollCallback (target entry) scrollIntoViewOptions)
         (filter (\<lambda>entry. \<not> isIntersecting entry) entries)"
  by (induction entries arbitrary: w) (simp_all add: forEach_body_callbacks)

lemma fold_forEach_body_trace:
  "trace (fold forEach_body entries w) = trace w @ map (\<lambda>entry. Unobserve (target entry)) entries"
  by (induction entries arbitrary: w) (simp_all add: forEach_body_trace)

lemma forEach_body_observed:
  "observed (forEach_body entry w) = removeAll (target entry) (observed w)"
  by (cases "observerInstance w")
    (simp_all add: forEach_body_def unobserve_def runAfterTransition_def observed_def)

lemma fold_forEach_body_observed:
  "observed (fold forEach_body entries w) =
     filter (\<lambda>e. e \<notin> set (map target entries)) (observed w)"
proof (induction entries arbitrary: w)
  case Nil
  then show ?case by simp
next
  case (Cons entry entries)
  have "filter (\<lambda>e. e \<notin> set (map target entries)) (removeAll (target entry) (observed w))
        = filter (\<lambda>e. e \<notin> set (map target (entry # entries))) (observed w)"
    by (auto simp: removeAll_filter_not_eq intro!: filter_cong)
  with Cons show ?case by (simp add: forEach_body_observed)
qed

lemma notify_unobserved:
  "entry \<in> set report \<Longrightarrow> target entry \<notin> set (observed w) \<Longrightarrow> notify report w = None"
  by (auto simp: notify_def observed_def list_all_iff split: option.splits)





lemma document_contains_observer_update:
  "document_contains (w\<lparr>observerInstance := obs\<rparr>) element = document_contains w element"
  by (simp add: document_contains_def)

lemma focusSafely_focus_independent_of_observer:
  "filter is_focus (trace (snd (focusSafely element (w\<lparr>observerInstance := obs\<rparr>)))) =
     filter is_focus (trace (snd (focusSafely element w)))
   \<and> activeElement (snd (focusSafely element (w\<lparr>observerInstance := obs\<rparr>))) =
       activeElement (snd (focusSafely element w))
   \<and> transitionCallbacks (snd (focusSafely element (w\<lparr>observerInstance := obs\<rparr>))) =
       transitionCallbacks (snd (focusSafely element w))"
proof (cases "currentModality w = Virtual")
  case True
  then show ?thesis by (simp add: focusSafely_virtual_world)
next
  case False
  then show ?thesis
    by (simp add: focusSafely_immediate_trace focusSafely_immediate_activeElement
        focusSafely_immediate_callbacks document_contains_observer_update)
qed

lemma run_callback_focus_independent_of_observer:
  "filter is_focus (trace (run_callback cb (w\<lparr>observerInstance := obs\<rparr>))) =
     filter is_focus (trace (run_callback cb w))
   \<and> activeElement (run_callback cb (w\<lparr>observerInstance := obs\<rparr>)) =
       activeElement (run_callback cb w)"
proof (cases cb)
  case (FocusCallback prev element)
  then show ?thesis
    by (simp add: run_callback_focus_trace run_callback_focus_activeElement
        document_contains_observer_update)
next
  case (ScrollCallback element opts)
  then show ?thesis by (simp add: run_callback_def scrollIntoView_def)
qed

section \<open>The immediate path\<close>

text \<open>
  C2. In every modality other than virtual (pointer, keyboard, unknown) the routine
  invokes the focus-without-scroll primitive on the target synchronously and exactly
  once: it is the first primitive invoked, no scroll is invoked, and nothing is
  deferred; a target that is in the document is the focused element when the call is
  over. This holds of every call, also of one that goes on to throw.
\<close>

theorem focusSafely_immediate_focus_once:
  "getInteractionModality w \<noteq> Virtual \<Longrightarrow>
   take 1 (new_events w (snd (focusSafely element w))) = [FocusWithoutScrolling element]
   \<and> filter is_focus (new_events w (snd (focusSafely element w))) = [FocusWithoutScrolling element]
   \<and> filter is_scroll (new_events w (snd (focusSafely element w))) = []
   \<and> new_callbacks w (snd (focusSafely element w)) = []
   \<and> take (length (trace w)) (trace (snd (focusSafely element w))) = trace w
   \<and> (document_contains w element \<longrightarrow> activeElement (snd (focusSafely element w)) = Some element)"
  by (simp add: getInteractionModality_def new_events_def new_callbacks_def
      focusSafely_immediate_trace focusSafely_immediate_callbacks focusSafely_immediate_activeElement)

theorem focusSafely_immediate_focus_once_witness:
  "getInteractionModality (initial_world Keyboard (Some 4) True) \<noteq> Virtual
   \<and> document_contains (initial_world Keyboard (Some 4) True) 3
   \<and> new_events (initial_world Keyboard (Some 4) True)
        (snd (focusSafely 3 (initial_world Keyboard (Some 4) True)))
      = [FocusWithoutScrolling 3, Observe 3]
   \<and> filter is_focus (new_events (initial_world Keyboard (Some 4) True)
        (snd (focusSafely 3 (initial_world Keyboard (Some 4) True)))) = [FocusWithoutScrolling 3]
   \<and> activeElement (snd (focusSafely 3 (initial_world Keyboard (Some 4) True))) = Some 3"
proof -
  have h: "getInteractionModality (initial_world Keyboard (Some 4) True) \<noteq> Virtual"
    by (simp add: getInteractionModality_def initial_world_def)
  show ?thesis
    using h focusSafely_immediate_focus_once [OF h, of 3]
    by (simp add: new_events_def focusSafely_defs initial_world_defs document_contains_def)
qed

text \<open>
  When the call returns, the target is registered with the watcher exactly when the
  watcher exists and it is not the case that the modality is pointer and the
  previously-focused element and the target are related. (A call that throws registers
  nothing: \<open>focusSafely_throw_no_registration\<close>.)
\<close>

lemma focusSafely_registers_iff:
  "getInteractionModality w \<noteq> Virtual \<Longrightarrow> fst (focusSafely element w) = Inr () \<Longrightarrow>
   (Observe element \<in> set (new_events w (snd (focusSafely element w)))) =
     (observerInstance w \<noteq> None
      \<and> \<not> (getInteractionModality w = Pointer \<and> related w (activeElement w) element))"
  by (simp add: getInteractionModality_def new_events_def focusSafely_immediate_trace)

section \<open>The null dereference on the pointer path\<close>

text \<open>
  C7. The claim is that focusSafely never raises, also when no element is focused. On the
  page below nothing is focused (\<^verbatim>\<open>document.activeElement\<close> is null), the modality
  is pointer and the watcher exists: line 81 calls \<^verbatim>\<open>contains\<close> on null, and the call
  throws a TypeError after it has moved focus. (\<open>focusSafely_throws_iff\<close>: this is the
  only way the routine throws.)
\<close>

theorem focusSafely_throws_on_null_activeElement:
  "fst (focusSafely 3 (initial_world Pointer None True)) = Inl TypeError"
  by (simp add: focusSafely_defs initial_world_defs)

text \<open>
  C3. The claim is that in a non-virtual modality the target is registered exactly when the
  watcher exists and it is not the case that the modality is pointer and the
  previously-focused element and the target are related. On the same page (pointer, nothing
  focused, watcher present) the right-hand side holds, as nothing is related to an absent
  element, yet the target is not registered: the call throws before it reaches line 87.
\<close>

theorem focusSafely_null_activeElement_not_registered:
  "getInteractionModality (initial_world Pointer None True) \<noteq> Virtual
   \<and> observerInstance (initial_world Pointer None True) \<noteq> None
   \<and> \<not> (getInteractionModality (initial_world Pointer None True) = Pointer
         \<and> related (initial_world Pointer None True) (activeElement (initial_world Pointer None True)) 3)
   \<and> Observe 3 \<notin> set (new_events (initial_world Pointer None True)
         (snd (focusSafely 3 (initial_world Pointer None True))))
   \<and> 3 \<notin> set (observed (snd (focusSafely 3 (initial_world Pointer None True))))"
  by (simp add: focusSafely_defs initial_world_defs related_def new_events_def observed_def)

section \<open>The deferred path\<close>

text \<open>
  C1. In virtual modality the call does not move focus: it invokes no primitive, leaves
  the focused element and the watcher as they are, and schedules exactly one continuation.
  When that continuation runs, in whatever world \<open>w'\<close> the page is in by then, it invokes
  the focus primitive on the target and registers the target with the watcher (if there is
  one) exactly when the focused element is still the one captured at call time and the
  target is in the document; otherwise it changes nothing.
\<close>

theorem focusSafely_virtual_deferred:
  "getInteractionModality w = Virtual \<Longrightarrow>
   fst (focusSafely element w) = Inr ()
   \<and> trace (snd (focusSafely element w)) = trace w
   \<and> activeElement (snd (focusSafely element w)) = activeElement w
   \<and> observerInstance (snd (focusSafely element w)) = observerInstance w
   \<and> new_callbacks w (snd (focusSafely element w)) = [FocusCallback (activeElement w) element]
   \<and> new_events w' (run_callback (FocusCallback (activeElement w) element) w') =
       (if activeElement w' = activeElement w \<and> document_contains w' element
        then FocusWithoutScrolling element # (if observerInstance w' = None then [] else [Observe element])
        else [])
   \<and> activeElement (run_callback (FocusCallback (activeElement w) element) w') =
       (if activeElement w' = activeElement w \<and> document_contains w' element
        then Some element else activeElement w')
   \<and> observed (run_callback (FocusCallback (activeElement w) element) w') =
       (if activeElement w' = activeElement w \<and> document_contains w' element
           \<and> observerInstance w' \<noteq> None \<and> element \<notin> set (observed w')
        then observed w' @ [element] else observed w')
   \<and> (if activeElement w' = activeElement w \<and> document_contains w' element
       then element \<in> set (observed (run_callback (FocusCallback (activeElement w) element) w'))
            \<or> observerInstance w' = None
       else run_callback (FocusCallback (activeElement w) element) w' = w')"
  by (simp add: getInteractionModality_def focusSafely_virtual_world new_callbacks_def new_events_def
      run_callback_focus_trace run_callback_focus_activeElement run_callback_focus_observed
      run_callback_focus_stale)

theorem focusSafely_virtual_deferred_witness:
  "getInteractionModality (initial_world Virtual (Some 4) True) = Virtual
   \<and> new_callbacks (initial_world Virtual (Some 4) True)
        (snd (focusSafely 3 (initial_world Virtual (Some 4) True))) = [FocusCallback (Some 4) 3]
   \<and> trace (snd (focusSafely 3 (initial_world Virtual (Some 4) True))) = []
   \<and> new_events (snd (focusSafely 3 (initial_world Virtual (Some 4) True)))
        (run_callback (FocusCallback (Some 4) 3) (snd (focusSafely 3 (initial_world Virtual (Some 4) True))))
       = [FocusWithoutScrolling 3, Observe 3]
   \<and> run_callback (FocusCallback (Some 4) 3)
        ((snd (focusSafely 3 (initial_world Virtual (Some 4) True)))\<lparr>activeElement := Some 2\<rparr>)
       = (snd (focusSafely 3 (initial_world Virtual (Some 4) True)))\<lparr>activeElement := Some 2\<rparr>
   \<and> run_callback (FocusCallback (Some 4) 3)
        ((snd (focusSafely 3 (initial_world Virtual (Some 4) True)))\<lparr>document := Node 0 [Node 1 [Node 4 []]]\<rparr>)
       = (snd (focusSafely 3 (initial_world Virtual (Some 4) True)))\<lparr>document := Node 0 [Node 1 [Node 4 []]]\<rparr>"
proof -
  have h: "getInteractionModality (initial_world Virtual (Some 4) True) = Virtual"
    by (simp add: getInteractionModality_def initial_world_def)
  note ok = focusSafely_virtual_deferred [OF h, of 3 "snd (focusSafely 3 (initial_world Virtual (Some 4) True))"]
  note stale = focusSafely_virtual_deferred [OF h, of 3
      "(snd (focusSafely 3 (initial_world Virtual (Some 4) True)))\<lparr>activeElement := Some 2\<rparr>"]
  note removed = focusSafely_virtual_deferred [OF h, of 3
      "(snd (focusSafely 3 (initial_world Virtual (Some 4) True)))\<lparr>document := Node 0 [Node 1 [Node 4 []]]\<rparr>"]
  show ?thesis
    using h ok stale removed
    by (simp add: focusSafely_defs initial_world_defs document_contains_def)
qed

text \<open>
  C9. On the virtual path the containment test of the pointer path is not applied: when
  the continuation's guard passes and the watcher exists, the target is registered,
  whatever the relation between the previously-focused element and the target.
\<close>

theorem virtual_continuation_registers_unconditionally:
  "getInteractionModality w = Virtual \<Longrightarrow> activeElement w' = activeElement w \<Longrightarrow>
   document_contains w' element \<Longrightarrow> observerInstance w' = Some obs \<Longrightarrow>
   new_callbacks w (snd (focusSafely element w)) = [FocusCallback (activeElement w) element]
   \<and> new_events w' (run_callback (FocusCallback (activeElement w) element) w')
       = [FocusWithoutScrolling element, Observe element]
   \<and> element \<in> set (observed (run_callback (FocusCallback (activeElement w) element) w'))"
  by (simp add: getInteractionModality_def focusSafely_virtual_world new_callbacks_def new_events_def
      run_callback_focus_trace run_callback_focus_observed)

theorem virtual_continuation_registers_unconditionally_witness:
  "getInteractionModality (initial_world Virtual (Some 2) True) = Virtual
   \<and> activeElement (snd (focusSafely 3 (initial_world Virtual (Some 2) True)))
       = activeElement (initial_world Virtual (Some 2) True)
   \<and> document_contains (snd (focusSafely 3 (initial_world Virtual (Some 2) True))) 3
   \<and> observerInstance (snd (focusSafely 3 (initial_world Virtual (Some 2) True)))
       = Some \<lparr>init = intersectionObserverOptions, targets = []\<rparr>
   \<and> related (initial_world Virtual (Some 2) True) (Some 2) 3
   \<and> new_events (snd (focusSafely 3 (initial_world Virtual (Some 2) True)))
        (run_callback (FocusCallback (Some 2) 3) (snd (focusSafely 3 (initial_world Virtual (Some 2) True))))
       = [FocusWithoutScrolling 3, Observe 3]"
proof -
  have h1: "getInteractionModality (initial_world Virtual (Some 2) True) = Virtual"
    by (simp add: getInteractionModality_def initial_world_def)
  have h2: "activeElement (snd (focusSafely 3 (initial_world Virtual (Some 2) True)))
       = activeElement (initial_world Virtual (Some 2) True)"
    by (simp add: focusSafely_defs initial_world_def)
  have h3: "document_contains (snd (focusSafely 3 (initial_world Virtual (Some 2) True))) 3"
    by (simp add: focusSafely_defs initial_world_def page_def document_contains_def)
  have h4: "observerInstance (snd (focusSafely 3 (initial_world Virtual (Some 2) True)))
       = Some \<lparr>init = intersectionObserverOptions, targets = []\<rparr>"
    by (simp add: focusSafely_defs initial_world_def intersectionObserver_def
        new_IntersectionObserver_def)
  have r: "related (initial_world Virtual (Some 2) True) (Some 2) 3"
    by (simp add: related_def node_contains_def initial_world_def page_def)
  show ?thesis
    using h1 h2 h3 h4 r virtual_continuation_registers_unconditionally [OF h1 h2 h3 h4]
    by (simp add: initial_world_def)
qed

section \<open>One focus move per call\<close>

text \<open>
  C4. One call invokes the focus primitive at most once, counting the call itself and the
  continuation it schedules (run in any later world \<open>w'\<close>): in virtual modality the call
  invokes it zero times and schedules one continuation, in any other modality it invokes
  it once and schedules nothing; a continuation invokes it at most once, and once the
  pending callbacks have run the queue is empty, so none runs again.
\<close>

theorem focus_primitive_at_most_once:
  "length (filter is_focus (new_events w (snd (focusSafely element w))))
     + sum_list (map (\<lambda>cb. length (filter is_focus (new_events w' (run_callback cb w'))))
         (new_callbacks w (snd (focusSafely element w)))) \<le> 1
   \<and> (if getInteractionModality w = Virtual
       then filter is_focus (new_events w (snd (focusSafely element w))) = []
            \<and> new_callbacks w (snd (focusSafely element w)) = [FocusCallback (activeElement w) element]
       else filter is_focus (new_events w (snd (focusSafely element w))) = [FocusWithoutScrolling element]
            \<and> new_callbacks w (snd (focusSafely element w)) = [])
   \<and> length (filter is_focus (new_events w' (run_callback cb w'))) \<le> 1
   \<and> transitionCallbacks (transitions_complete w') = []"
proof (cases "currentModality w = Virtual")
  case True
  then show ?thesis
    by (cases cb)
      (simp_all add: getInteractionModality_def focusSafely_virtual_world new_callbacks_def new_events_def
        run_callback_focus_trace run_callback_scroll_trace transitions_complete_empties)
next
  case False
  then show ?thesis
    by (cases cb)
      (simp_all add: getInteractionModality_def new_callbacks_def new_events_def
        focusSafely_immediate_trace focusSafely_immediate_callbacks
        run_callback_focus_trace run_callback_scroll_trace transitions_complete_empties)
qed

section \<open>The watcher's callback\<close>

text \<open>
  C5. For the entries reported to the callback: every entry that is not intersecting
  schedules a scroll-into-view correction with nearest alignment on both axes through
  \<^verbatim>\<open>runAfterTransition\<close> (the scroll itself happens only when that callback runs), an
  intersecting entry schedules nothing, and every reported element is unobserved. The
  host can then make no further report that mentions a handled element, until the
  element is observed again.
\<close>

theorem intersectionObserverCallback_corrects_and_unobserves:
  "new_callbacks w (intersectionObserverCallback entries w) =
     map (\<lambda>entry. ScrollCallback (target entry) \<lparr>behavior = Auto, block = Nearest, inline = Nearest\<rparr>)
       (filter (\<lambda>entry. \<not> isIntersecting entry) entries)
   \<and> new_events w (intersectionObserverCallback entries w) =
       map (\<lambda>entry. Unobserve (target entry)) entries
   \<and> observed (intersectionObserverCallback entries w) =
       filter (\<lambda>e. e \<notin> set (map target entries)) (observed w)
   \<and> new_callbacks w (forEach_body entry w) =
       (if isIntersecting entry then []
        else [ScrollCallback (target entry) \<lparr>behavior = Auto, block = Nearest, inline = Nearest\<rparr>])
   \<and> new_events w (forEach_body entry w) = [Unobserve (target entry)]
   \<and> target entry \<notin> set (observed (forEach_body entry w))
   \<and> new_events w' (run_callback (ScrollCallback e opts) w') = [ScrollIntoView e opts]
   \<and> (target late \<in> set (map target entries) \<and> late \<in> set report \<longrightarrow>
        notify report (intersectionObserverCallback entries w) = None)
   \<and> notify [late] (observe (target late) w') =
       (if observerInstance w' = None then None
        else Some (intersectionObserverCallback [late] (observe (target late) w')))"
proof -
  have 1: "new_callbacks w (intersectionObserverCallback entries w) =
     map (\<lambda>entry. ScrollCallback (target entry) \<lparr>behavior = Auto, block = Nearest, inline = Nearest\<rparr>)
       (filter (\<lambda>entry. \<not> isIntersecting entry) entries)"
    by (simp add: new_callbacks_def intersectionObserverCallback_def fold_forEach_body_callbacks
        scrollIntoViewOptions_def)
  have 2: "new_events w (intersectionObserverCallback entries w) =
       map (\<lambda>entry. Unobserve (target entry)) entries"
    by (simp add: new_events_def intersectionObserverCallback_def fold_forEach_body_trace)
  have 3: "observed (intersectionObserverCallback entries w) =
       filter (\<lambda>e. e \<notin> set (map target entries)) (observed w)"
    by (simp add: intersectionObserverCallback_def fold_forEach_body_observed)
  have 4: "new_callbacks w (forEach_body entry w) =
       (if isIntersecting entry then []
        else [ScrollCallback (target entry) \<lparr>behavior = Auto, block = Nearest, inline = Nearest\<rparr>])"
    by (simp add: new_callbacks_def forEach_body_callbacks scrollIntoViewOptions_def)
  have 5: "new_events w (forEach_body entry w) = [Unobserve (target entry)]"
    by (simp add: new_events_def forEach_body_trace)
  have 6: "target entry \<notin> set (observed (forEach_body entry w))"
    by (simp add: forEach_body_observed)
  have 7: "new_events w' (run_callback (ScrollCallback e opts) w') = [ScrollIntoView e opts]"
    by (simp add: new_events_def run_callback_scroll_trace)
  have 8: "target late \<in> set (map target entries) \<and> late \<in> set report \<longrightarrow>
        notify report (intersectionObserverCallback entries w) = None"
  proof (intro impI, elim conjE)
    assume a: "target late \<in> set (map target entries)" and b: "late \<in> set report"
    have "target late \<notin> set (observed (intersectionObserverCallback entries w))"
      using a by (simp add: 3)
    with b show "notify report (intersectionObserverCallback entries w) = None"
      by (rule notify_unobserved)
  qed
  have 9: "notify [late] (observe (target late) w') =
       (if observerInstance w' = None then None
        else Some (intersectionObserverCallback [late] (observe (target late) w')))"
    by (auto simp: notify_def observe_def split: option.splits)
  from 1 2 3 4 5 6 7 8 9 show ?thesis by blast
qed

theorem intersectionObserverCallback_corrects_and_unobserves_witness:
  "target \<lparr>target = 3, isIntersecting = True\<rparr>
     \<in> set (map target [\<lparr>target = 3, isIntersecting = False\<rparr>, \<lparr>target = 4, isIntersecting = True\<rparr>])
   \<and> \<lparr>target = 3, isIntersecting = True\<rparr> \<in> set [\<lparr>target = 3, isIntersecting = True\<rparr>]
   \<and> observed (run [CallFocusSafely 3, CallFocusSafely 4] (initial_world Keyboard (Some 2) True)) = [3, 4]
   \<and> new_callbacks (run [CallFocusSafely 3, CallFocusSafely 4] (initial_world Keyboard (Some 2) True))
        (intersectionObserverCallback
          [\<lparr>target = 3, isIntersecting = False\<rparr>, \<lparr>target = 4, isIntersecting = True\<rparr>]
          (run [CallFocusSafely 3, CallFocusSafely 4] (initial_world Keyboard (Some 2) True)))
       = [ScrollCallback 3 \<lparr>behavior = Auto, block = Nearest, inline = Nearest\<rparr>]
   \<and> observed (intersectionObserverCallback
          [\<lparr>target = 3, isIntersecting = False\<rparr>, \<lparr>target = 4, isIntersecting = True\<rparr>]
          (run [CallFocusSafely 3, CallFocusSafely 4] (initial_world Keyboard (Some 2) True))) = []
   \<and> notify [\<lparr>target = 3, isIntersecting = True\<rparr>]
        (intersectionObserverCallback
          [\<lparr>target = 3, isIntersecting = False\<rparr>, \<lparr>target = 4, isIntersecting = True\<rparr>]
          (run [CallFocusSafely 3, CallFocusSafely 4] (initial_world Keyboard (Some 2) True))) = None"
proof -
  have h1: "target \<lparr>target = 3, isIntersecting = True\<rparr>
     \<in> set (map target [\<lparr>target = 3, isIntersecting = False\<rparr>, \<lparr>target = 4, isIntersecting = True\<rparr>])"
    by simp
  have h2: "\<lparr>target = 3, isIntersecting = True\<rparr> \<in> set [\<lparr>target = 3, isIntersecting = True\<rparr>]"
    by simp
  have o: "observed (run [CallFocusSafely 3, CallFocusSafely 4] (initial_world Keyboard (Some 2) True)) = [3, 4]"
    by (simp add: run_def focusSafely_defs initial_world_defs observed_def)
  note t = intersectionObserverCallback_corrects_and_unobserves
      [where late = "\<lparr>target = 3, isIntersecting = True\<rparr>"
         and entries = "[\<lparr>target = 3, isIntersecting = False\<rparr>, \<lparr>target = 4, isIntersecting = True\<rparr>]"
         and report = "[\<lparr>target = 3, isIntersecting = True\<rparr>]"
         and w = "run [CallFocusSafely 3, CallFocusSafely 4] (initial_world Keyboard (Some 2) True)"
         and entry = "\<lparr>target = 3, isIntersecting = False\<rparr>"
         and e = 3 and opts = scrollIntoViewOptions
         and w' = "initial_world Keyboard (Some 2) True"]
  show ?thesis
    using h1 h2 o t by simp
qed

text \<open>
  C10. The watcher is constructed with threshold 1, root margin 0px and no root. With
  the host reporting an element as intersecting when its visible fraction reaches the
  threshold, a registered element whose visible fraction is below 1 is reported as not
  intersecting, the callback schedules a scroll correction for it, and that correction
  scrolls with behavior auto (and nearest alignment).
\<close>

theorem watcher_full_visibility_threshold:
  "observerInstance w = Some obs \<Longrightarrow> init obs = intersectionObserverOptions \<Longrightarrow>
   element \<in> set (observed w) \<Longrightarrow> ratio < 1 \<Longrightarrow>
   intersectionObserver True = Some \<lparr>init = intersectionObserverOptions, targets = []\<rparr>
   \<and> threshold (init obs) = 1 \<and> rootMargin (init obs) = ''0px'' \<and> root (init obs) = None
   \<and> \<not> isIntersecting (host_entry (init obs) element ratio)
   \<and> notify [host_entry (init obs) element ratio] w =
       Some (intersectionObserverCallback [host_entry (init obs) element ratio] w)
   \<and> new_callbacks w (intersectionObserverCallback [host_entry (init obs) element ratio] w) =
       [ScrollCallback element scrollIntoViewOptions]
   \<and> behavior scrollIntoViewOptions = Auto
   \<and> new_events w' (run_callback (ScrollCallback element scrollIntoViewOptions) w') =
       [ScrollIntoView element \<lparr>behavior = Auto, block = Nearest, inline = Nearest\<rparr>]"
  by (simp add: intersectionObserver_def new_IntersectionObserver_def intersectionObserverOptions_def
      host_entry_def notify_def observed_def new_callbacks_def new_events_def
      intersectionObserverCallback_def forEach_body_callbacks run_callback_scroll_trace
      scrollIntoViewOptions_def)

theorem watcher_full_visibility_threshold_witness:
  "observerInstance (snd (focusSafely 3 (initial_world Keyboard (Some 4) True)))
     = Some \<lparr>init = intersectionObserverOptions, targets = [3]\<rparr>
   \<and> init \<lparr>init = intersectionObserverOptions, targets = [3]\<rparr> = intersectionObserverOptions
   \<and> 3 \<in> set (observed (snd (focusSafely 3 (initial_world Keyboard (Some 4) True))))
   \<and> (1 / 2 :: rat) < 1
   \<and> \<not> isIntersecting (host_entry intersectionObserverOptions 3 (1 / 2))
   \<and> new_callbacks (snd (focusSafely 3 (initial_world Keyboard (Some 4) True)))
        (intersectionObserverCallback [host_entry intersectionObserverOptions 3 (1 / 2)]
          (snd (focusSafely 3 (initial_world Keyboard (Some 4) True))))
       = [ScrollCallback 3 \<lparr>behavior = Auto, block = Nearest, inline = Nearest\<rparr>]"
proof -
  have h1: "observerInstance (snd (focusSafely 3 (initial_world Keyboard (Some 4) True)))
     = Some \<lparr>init = intersectionObserverOptions, targets = [3]\<rparr>"
    by (simp add: focusSafely_defs initial_world_def intersectionObserver_def
        new_IntersectionObserver_def)
  have h2: "init \<lparr>init = intersectionObserverOptions, targets = [3]\<rparr> = intersectionObserverOptions"
    by simp
  have h3: "3 \<in> set (observed (snd (focusSafely 3 (initial_world Keyboard (Some 4) True))))"
    using h1 by (simp add: observed_def)
  have h4: "(1 / 2 :: rat) < 1" by simp
  show ?thesis
    using h1 h2 h3 h4 watcher_full_visibility_threshold [OF h1 h2 h3 h4]
    by (simp add: scrollIntoViewOptions_def)
qed

section \<open>The page without a watcher\<close>

lemma only_focus_events:
  "list_all is_focus es \<Longrightarrow> filter is_observe es = [] \<and> filter is_scroll es = []"
proof (induction es)
  case Nil
  then show ?case by simp
next
  case (Cons ev es)
  then show ?case by (cases ev) simp_all
qed

lemma run_callback_degraded:
  "observerInstance w = None \<Longrightarrow> \<not> is_scroll_callback cb \<Longrightarrow>
   observerInstance (run_callback cb w) = None
   \<and> (\<exists>es. trace (run_callback cb w) = trace w @ es \<and> list_all is_focus es)"
  by (cases cb) (auto simp: run_callback_def focusWithoutScrolling_def)

lemma fold_run_callback_degraded:
  "observerInstance w = None \<Longrightarrow> list_all (\<lambda>cb. \<not> is_scroll_callback cb) cbs \<Longrightarrow>
   observerInstance (fold run_callback cbs w) = None
   \<and> (\<exists>es. trace (fold run_callback cbs w) = trace w @ es \<and> list_all is_focus es)"
proof (induction cbs arbitrary: w)
  case Nil
  then show ?case by simp
next
  case (Cons cb cbs)
  from Cons.prems have cb: "\<not> is_scroll_callback cb"
    and cbs: "list_all (\<lambda>cb. \<not> is_scroll_callback cb) cbs" by simp_all
  from run_callback_degraded [OF Cons.prems(1) cb]
  obtain es where none: "observerInstance (run_callback cb w) = None"
    and es: "trace (run_callback cb w) = trace w @ es" "list_all is_focus es" by blast
  from Cons.IH [OF none cbs]
  obtain es' where "observerInstance (fold run_callback cbs (run_callback cb w)) = None"
    and "trace (fold run_callback cbs (run_callback cb w)) = trace (run_callback cb w) @ es'"
    and "list_all is_focus es'" by blast
  with es show ?case by simp
qed

lemma focusSafely_degraded:
  "observerInstance w = None \<Longrightarrow>
   fst (focusSafely element w) = Inr ()
   \<and> observerInstance (snd (focusSafely element w)) = None
   \<and> transitionCallbacks (snd (focusSafely element w)) =
       transitionCallbacks w @
         (if currentModality w = Virtual then [FocusCallback (activeElement w) element] else [])
   \<and> trace (snd (focusSafely element w)) =
       trace w @ (if currentModality w = Virtual then [] else [FocusWithoutScrolling element])"
  by (simp add: focusSafely_defs)

lemma step_degraded:
  assumes "observerInstance w = None"
    and "list_all (\<lambda>cb. \<not> is_scroll_callback cb) (transitionCallbacks w)"
  shows "observerInstance (step a w) = None
   \<and> list_all (\<lambda>cb. \<not> is_scroll_callback cb) (transitionCallbacks (step a w))
   \<and> (\<exists>es. trace (step a w) = trace w @ es \<and> list_all is_focus es)"
proof (cases a)
  case (CallFocusSafely element)
  with assms focusSafely_degraded [OF assms(1), of element] show ?thesis by simp
next
  case TransitionsComplete
  have "observerInstance (w\<lparr>transitionCallbacks := []\<rparr>) = None" using assms(1) by simp
  from fold_run_callback_degraded [OF this assms(2)] TransitionsComplete
  show ?thesis by (simp add: transitions_complete_def transitions_complete_fold_callbacks)
next
  case (Notify entries)
  with assms show ?thesis by (simp add: notify_def)
next
  case (SetModality m)
  with assms show ?thesis by simp
next
  case (SetActiveElement e)
  with assms show ?thesis by simp
next
  case (SetDom d ds)
  with assms show ?thesis by simp
qed

lemma run_degraded:
  "observerInstance w = None \<Longrightarrow>
   list_all (\<lambda>cb. \<not> is_scroll_callback cb) (transitionCallbacks w) \<Longrightarrow>
   observerInstance (run acts w) = None
   \<and> list_all (\<lambda>cb. \<not> is_scroll_callback cb) (transitionCallbacks (run acts w))
   \<and> (\<exists>es. trace (run acts w) = trace w @ es \<and> list_all is_focus es)"
proof (induction acts arbitrary: w)
  case Nil
  then show ?case by (simp add: run_def)
next
  case (Cons a acts)
  from step_degraded [OF Cons.prems, of a]
  obtain es where none: "observerInstance (step a w) = None"
    and cbs: "list_all (\<lambda>cb. \<not> is_scroll_callback cb) (transitionCallbacks (step a w))"
    and es: "trace (step a w) = trace w @ es" "list_all is_focus es" by blast
  from Cons.IH [OF none cbs]
  obtain es' where "observerInstance (run acts (step a w)) = None"
    and "list_all (\<lambda>cb. \<not> is_scroll_callback cb) (transitionCallbacks (run acts (step a w)))"
    and "trace (run acts (step a w)) = trace (step a w) @ es'"
    and "list_all is_focus es'" by blast
  with es show ?case by (simp add: run_def)
qed

text \<open>
  C6. When the construction of the watcher fails, the failure is caught and the watcher
  is absent; it stays absent through every run of the page. From then on no call of
  focusSafely throws; each call, and each continuation, invokes the focus primitive and
  moves focus exactly as it would with a watcher; and the only primitive ever invoked is
  the focus primitive: no element is registered, no scroll correction is scheduled and
  none is made.
\<close>

theorem watcher_failure_degrades_gracefully:
  "observerInstance w = intersectionObserver False \<Longrightarrow>
   list_all (\<lambda>cb. \<not> is_scroll_callback cb) (transitionCallbacks w) \<Longrightarrow>
   intersectionObserver False = None
   \<and> observerInstance (run acts w) = None
   \<and> fst (focusSafely element (run acts w)) = Inr ()
   \<and> filter is_focus (trace (snd (focusSafely element (run acts w)))) =
       filter is_focus (trace (snd (focusSafely element ((run acts w)\<lparr>observerInstance := Some obs\<rparr>))))
   \<and> activeElement (snd (focusSafely element (run acts w))) =
       activeElement (snd (focusSafely element ((run acts w)\<lparr>observerInstance := Some obs\<rparr>)))
   \<and> transitionCallbacks (snd (focusSafely element (run acts w))) =
       transitionCallbacks (snd (focusSafely element ((run acts w)\<lparr>observerInstance := Some obs\<rparr>)))
   \<and> filter is_focus (trace (run_callback cb (run acts w))) =
       filter is_focus (trace (run_callback cb ((run acts w)\<lparr>observerInstance := Some obs\<rparr>)))
   \<and> activeElement (run_callback cb (run acts w)) =
       activeElement (run_callback cb ((run acts w)\<lparr>observerInstance := Some obs\<rparr>))
   \<and> take (length (trace w)) (trace (run acts w)) = trace w
   \<and> list_all is_focus (new_events w (run acts w))
   \<and> filter is_observe (new_events w (run acts w)) = []
   \<and> filter is_scroll (new_events w (run acts w)) = []
   \<and> list_all (\<lambda>cb. \<not> is_scroll_callback cb) (transitionCallbacks (run acts w))"
proof -
  assume a: "observerInstance w = intersectionObserver False"
    and b: "list_all (\<lambda>cb. \<not> is_scroll_callback cb) (transitionCallbacks w)"
  have 1: "intersectionObserver False = None"
    by (simp add: intersectionObserver_def new_IntersectionObserver_def)
  with a have none: "observerInstance w = None" by simp
  from run_degraded [OF none b]
  obtain es where 2: "observerInstance (run acts w) = None"
    and 3: "list_all (\<lambda>cb. \<not> is_scroll_callback cb) (transitionCallbacks (run acts w))"
    and es: "trace (run acts w) = trace w @ es" "list_all is_focus es" by blast
  from es have 4: "take (length (trace w)) (trace (run acts w)) = trace w"
    and 5: "list_all is_focus (new_events w (run acts w))"
    by (simp_all add: new_events_def)
  from only_focus_events [OF 5]
  have 6: "filter is_observe (new_events w (run acts w)) = []"
    and 7: "filter is_scroll (new_events w (run acts w)) = []" by simp_all
  from focusSafely_degraded [OF 2]
  have 8: "fst (focusSafely element (run acts w)) = Inr ()" by simp
  note 9 = focusSafely_focus_independent_of_observer [where element = element and w = "run acts w" and obs = "Some obs"]
  note 10 = run_callback_focus_independent_of_observer [where cb = cb and w = "run acts w" and obs = "Some obs"]
  from 1 2 3 4 5 6 7 8 9 10 show ?thesis by simp
qed

theorem watcher_failure_degrades_gracefully_witness:
  "observerInstance (initial_world Pointer None False) = intersectionObserver False
   \<and> list_all (\<lambda>cb. \<not> is_scroll_callback cb) (transitionCallbacks (initial_world Pointer None False))
   \<and> observerInstance (run [CallFocusSafely 3, SetModality Virtual, CallFocusSafely 4, TransitionsComplete]
        (initial_world Pointer None False)) = None
   \<and> trace (run [CallFocusSafely 3, SetModality Virtual, CallFocusSafely 4, TransitionsComplete]
        (initial_world Pointer None False)) = [FocusWithoutScrolling 3, FocusWithoutScrolling 4]
   \<and> fst (focusSafely 2 (run [CallFocusSafely 3, SetModality Virtual, CallFocusSafely 4, TransitionsComplete]
        (initial_world Pointer None False))) = Inr ()
   \<and> fst (focusSafely 3 (initial_world Pointer None False)) = Inr ()"
proof -
  have h1: "observerInstance (initial_world Pointer None False) = intersectionObserver False"
    by (simp add: initial_world_def)
  have h2: "list_all (\<lambda>cb. \<not> is_scroll_callback cb) (transitionCallbacks (initial_world Pointer None False))"
    by (simp add: initial_world_def)
  have t: "trace (run [CallFocusSafely 3, SetModality Virtual, CallFocusSafely 4, TransitionsComplete]
        (initial_world Pointer None False)) = [FocusWithoutScrolling 3, FocusWithoutScrolling 4]"
    by (simp add: run_def focusSafely_defs initial_world_defs transitions_complete_def
        run_callback_def document_contains_def)
  show ?thesis
    using h1 h2 t
      watcher_failure_degrades_gracefully [OF h1 h2,
        of "[CallFocusSafely 3, SetModality Virtual, CallFocusSafely 4, TransitionsComplete]" 2]
      watcher_failure_degrades_gracefully [OF h1 h2, of "[]" 3]
    by (simp add: run_def)
qed

section \<open>What the routine leaves alone\<close>



















end
